theory Spec2Isabelle
  imports Main "HOL-Library.AList"
begin

section \<open>JavaScript values\<close>

text \<open>
  The renderer of \<^verbatim>\<open>src/require/Document.cjs\<close> dispatches on the dynamic shape of
  the value it is given, so the embedding starts from a datatype of JavaScript values.
  An object is the list of its own enumerable string-keyed entries, in the order
  \<^verbatim>\<open>Object.entries\<close> lists them (keys are pairwise distinct in a real object).
  A function value is a reference into a store of functions, which gives each one its
  source text (what \<^verbatim>\<open>toString()\<close> returns) and its behaviour when called. A
  function may read and change the variables it closes over: \<open>world\<close> is the state of
  the program outside the Document and the tree, a call gets the world as it is and
  returns, with its result, the world as it leaves it.
  Numbers are the integer-valued ones that print in plain decimal digits (the counter is
  one of them), strings are lists of 8-bit characters and stand for ASCII text, on which
  \<^verbatim>\<open>toLowerCase\<close> changes the letters A to Z only.
\<close>

datatype jsval =
    VUndefined
  | VNull
  | VBool bool
  | VNum int
  | VStr string
  | VSymbol string
  | VFun nat
  | VArr "jsval list"
  | VObj "(string \<times> jsval) list"

datatype error = TypeError | Thrown jsval

type_synonym world = jsval

record jsfun =
  source :: string
  invoke :: "world \<Rightarrow> jsval list \<Rightarrow> (error + jsval) \<times> world"

type_synonym fenv = "nat \<Rightarrow> jsfun"

subsection \<open>Strings\<close>

definition digitChar :: "nat \<Rightarrow> char" where
  "digitChar n = ''0123456789'' ! (n mod 10)"

fun digits :: "nat \<Rightarrow> string" where
  "digits n = (if n < 10 then [digitChar n] else digits (n div 10) @ [digitChar n])"

declare digits.simps [simp del]

definition numToString :: "int \<Rightarrow> string" where
  "numToString i = (if i < 0 then ''-'' @ digits (nat (- i)) else digits (nat i))"

definition toLowerChar :: "char \<Rightarrow> char" where
  "toLowerChar c =
     (case map_of (zip ''ABCDEFGHIJKLMNOPQRSTUVWXYZ'' ''abcdefghijklmnopqrstuvwxyz'') c of
        None \<Rightarrow> c
      | Some l \<Rightarrow> l)"

definition toLowerCase :: "string \<Rightarrow> string" where
  "toLowerCase s = map toLowerChar s"

definition startsWith :: "string \<Rightarrow> string \<Rightarrow> bool" where
  "startsWith s p = (take (length p) s = p)"

definition substring :: "string \<Rightarrow> nat \<Rightarrow> string" where
  "substring s n = drop n s"

fun join :: "string list \<Rightarrow> string \<Rightarrow> string" where
  "join [] sep = []"
| "join [x] sep = x"
| "join (x # y # ys) sep = x @ sep @ join (y # ys) sep"

subsection \<open>Type tags, truthiness, coercion to string\<close>

fun typeof :: "jsval \<Rightarrow> string" where
  "typeof VUndefined = ''undefined''"
| "typeof VNull = ''object''"
| "typeof (VBool b) = ''boolean''"
| "typeof (VNum i) = ''number''"
| "typeof (VStr s) = ''string''"
| "typeof (VSymbol s) = ''symbol''"
| "typeof (VFun f) = ''function''"
| "typeof (VArr xs) = ''object''"
| "typeof (VObj es) = ''object''"

fun truthy :: "jsval \<Rightarrow> bool" where
  "truthy VUndefined = False"
| "truthy VNull = False"
| "truthy (VBool b) = b"
| "truthy (VNum i) = (i \<noteq> 0)"
| "truthy (VStr s) = (s \<noteq> [])"
| "truthy _ = True"

text \<open>
  \<open>toStringJS\<close> is the coercion a template literal applies (\<^verbatim>\<open>`${v}`\<close>): a symbol
  cannot be coerced and raises a TypeError, an array is its elements joined by commas
  with \<^verbatim>\<open>null\<close> and \<^verbatim>\<open>undefined\<close> elements left empty, a plain object is
  \<^verbatim>\<open>[object Object]\<close>.
\<close>

fun toStringJS :: "fenv \<Rightarrow> jsval \<Rightarrow> error + string"
  and arrayJoin :: "fenv \<Rightarrow> jsval list \<Rightarrow> error + string" where
  "toStringJS env VUndefined = Inr ''undefined''"
| "toStringJS env VNull = Inr ''null''"
| "toStringJS env (VBool b) = Inr (if b then ''true'' else ''false'')"
| "toStringJS env (VNum i) = Inr (numToString i)"
| "toStringJS env (VStr s) = Inr s"
| "toStringJS env (VSymbol s) = Inl TypeError"
| "toStringJS env (VFun f) = Inr (source (env f))"
| "toStringJS env (VArr xs) = arrayJoin env xs"
| "toStringJS env (VObj es) = Inr ''[object Object]''"
| "arrayJoin env [] = Inr []"
| "arrayJoin env (x # xs) =
     (case (if x = VUndefined \<or> x = VNull then Inr [] else toStringJS env x) of
        Inl e \<Rightarrow> Inl e
      | Inr s \<Rightarrow>
          (if xs = [] then Inr s
           else (case arrayJoin env xs of Inl e \<Rightarrow> Inl e | Inr r \<Rightarrow> Inr (s @ '','' @ r))))"

text \<open>
  \<open>methodToString\<close> is the method call \<^verbatim>\<open>v.toString()\<close>: it raises a TypeError on
  \<^verbatim>\<open>null\<close> and \<^verbatim>\<open>undefined\<close>, and a symbol prints with its description.
\<close>

fun methodToString :: "fenv \<Rightarrow> jsval \<Rightarrow> error + string" where
  "methodToString env VUndefined = Inl TypeError"
| "methodToString env VNull = Inl TypeError"
| "methodToString env (VSymbol s) = Inr (''Symbol('' @ s @ '')'')"
| "methodToString env v = toStringJS env v"

subsection \<open>Property access\<close>

fun getField :: "jsval \<Rightarrow> string \<Rightarrow> jsval" where
  "getField (VObj es) k = (case map_of es k of None \<Rightarrow> VUndefined | Some v \<Rightarrow> v)"
| "getField v k = VUndefined"

fun getProp :: "jsval \<Rightarrow> string \<Rightarrow> error + jsval" where
  "getProp VUndefined k = Inl TypeError"
| "getProp VNull k = Inl TypeError"
| "getProp v k = Inr (getField v k)"

fun indexed :: "nat \<Rightarrow> jsval list \<Rightarrow> (string \<times> jsval) list" where
  "indexed i [] = []"
| "indexed i (x # xs) = (numToString (int i), x) # indexed (Suc i) xs"

fun ownEntries :: "jsval \<Rightarrow> (string \<times> jsval) list" where
  "ownEntries (VObj es) = es"
| "ownEntries (VArr xs) = indexed 0 xs"
| "ownEntries (VStr s) = indexed 0 (map (\<lambda>c. VStr [c]) s)"
| "ownEntries v = []"

fun objectEntries :: "jsval \<Rightarrow> error + (string \<times> jsval) list" where
  "objectEntries VUndefined = Inl TypeError"
| "objectEntries VNull = Inl TypeError"
| "objectEntries v = Inr (ownEntries v)"

section \<open>The Document\<close>

text \<open>
  The private fields of the class. The lists of header and body fragments hold the
  strings their promises resolve to; the methods that fill them (\<^verbatim>\<open>addMeta\<close>,
  \<^verbatim>\<open>addLink\<close>, \<^verbatim>\<open>addStyle\<close>, \<^verbatim>\<open>addHeaderScript\<close>, \<^verbatim>\<open>addBodyScript\<close>) and the
  setters of \<open>lang\<close>, \<open>title\<close> and \<open>noScript\<close> are not part of the embedding.
  \<open>createComponent\<close> is the creation callback; it is given the function store to call
  the component with, and the world.
  A component or a callback returns a node or throws, and may change the world; it has
  no effect on the Document or on the tree.
  The counter is a JavaScript number that only ever counts up from 0 in steps of one;
  it is a natural number here (the field \<^verbatim>\<open>#identifier\<close>; the word is reserved).
\<close>

record document =
  identifierCounter :: nat
  lang :: string
  title :: string
  metas :: "string list"
  links :: "string list"
  styles :: "string list"
  headerScripts :: "string list"
  bodyScripts :: "string list"
  noScript :: string
  listeners :: "string list"
  createComponent :: "fenv \<Rightarrow> jsval \<Rightarrow> jsval \<Rightarrow> world \<Rightarrow> (error + jsval) \<times> world"

text \<open>Calling a value with a list of arguments; only a function can be called.\<close>

fun callFunction ::
  "fenv \<Rightarrow> jsval \<Rightarrow> jsval list \<Rightarrow> world \<Rightarrow> (error + jsval) \<times> world" where
  "callFunction env (VFun f) args w = invoke (env f) w args"
| "callFunction env v args w = (Inl TypeError, w)"

text \<open>The initial callback: \<^verbatim>\<open>async (component, props) => component(props)\<close>.\<close>

definition defaultCreateComponent ::
  "fenv \<Rightarrow> jsval \<Rightarrow> jsval \<Rightarrow> world \<Rightarrow> (error + jsval) \<times> world" where
  "defaultCreateComponent env component props w = callFunction env component [props] w"

definition newDocument :: document where
  "newDocument =
     \<lparr> identifierCounter = 0,
       lang = ''en'',
       title = ''Rendered as dynamic markup'',
       metas = [],
       links = [],
       styles = [],
       headerScripts = [],
       bodyScripts = [],
       noScript = ''Your browser does not support JavaScript!'',
       listeners = [],
       createComponent = defaultCreateComponent \<rparr>"

definition setCreateComponentCallback ::
  "(fenv \<Rightarrow> jsval \<Rightarrow> jsval \<Rightarrow> world \<Rightarrow> (error + jsval) \<times> world)
   \<Rightarrow> document \<Rightarrow> document" where
  "setCreateComponentCallback cb d = d\<lparr>createComponent := cb\<rparr>"

section \<open>Attributes of a tag\<close>

text \<open>
  The three variables the callback of \<^verbatim>\<open>Object.entries(attributes).forEach\<close> in
  \<^verbatim>\<open>#parseTag\<close> closes over. An event listener is the pair of its event type and
  the source text of its handler.
\<close>

record tagState =
  html :: string
  children :: jsval
  eventListeners :: "(string \<times> string) list"

definition styleText :: "fenv \<Rightarrow> jsval \<Rightarrow> error + string list" where
  "styleText env v =
     (case objectEntries v of
        Inl e \<Rightarrow> Inl e
      | Inr es \<Rightarrow>
          foldr (\<lambda>(k, x) acc.
                   case methodToString env x of
                     Inl e \<Rightarrow> Inl e
                   | Inr s \<Rightarrow> (case acc of Inl e \<Rightarrow> Inl e | Inr r \<Rightarrow> Inr ((k @ '':'' @ s) # r)))
                es (Inr []))"

definition attributeCallback :: "fenv \<Rightarrow> tagState \<Rightarrow> string \<times> jsval \<Rightarrow> error + tagState" where
  "attributeCallback env st kv =
     (case kv of (key, val) \<Rightarrow>
        if key = ''children'' then Inr (st\<lparr>children := val\<rparr>)
        else if startsWith (toLowerCase key) ''on'' \<and> typeof val = ''function'' then
          (case methodToString env val of
             Inl e \<Rightarrow> Inl e
           | Inr src \<Rightarrow>
               Inr (st\<lparr>eventListeners :=
                          eventListeners st @ [(toLowerCase (substring key 2), src)]\<rparr>))
        else if toLowerCase key = ''style'' \<and> typeof val = ''object'' then
          (case styleText env val of
             Inl e \<Rightarrow> Inl e
           | Inr ps \<Rightarrow> Inr (st\<lparr>html := html st @ '' style=\"'' @ join ps '';'' @ ''\"''\<rparr>))
        else if typeof val = ''boolean'' then
          (if val = VBool True then Inr (st\<lparr>html := html st @ '' '' @ key\<rparr>) else Inr st)
        else if typeof val \<noteq> ''symbol'' then
          (case toStringJS env val of
             Inl e \<Rightarrow> Inl e
           | Inr s \<Rightarrow>
               Inr (st\<lparr>html := html st @ '' '' @ (if key = ''className'' then ''class'' else key)
                                   @ ''=\"'' @ s @ ''\"''\<rparr>))
        else Inr st)"

fun forEachAttribute :: "fenv \<Rightarrow> (string \<times> jsval) list \<Rightarrow> tagState \<Rightarrow> error + tagState" where
  "forEachAttribute env [] st = Inr st"
| "forEachAttribute env (kv # rest) st =
     (case attributeCallback env st kv of
        Inl e \<Rightarrow> Inl e
      | Inr st' \<Rightarrow> forEachAttribute env rest st')"

text \<open>The two strings \<^verbatim>\<open>#parseTag\<close> builds for an element with event listeners.\<close>

definition mkIdentifier :: "string \<Rightarrow> nat \<Rightarrow> string" where
  "mkIdentifier tag n = tag @ ''_'' @ numToString (int n)"

definition dataAttributes :: "string \<Rightarrow> (string \<times> string) list \<Rightarrow> string" where
  "dataAttributes ident evs =
     '' data-identifier=\"'' @ ident @ ''\" data-listeners=\"'' @ join (map fst evs) '', '' @ ''\"''"

definition listenerScript :: "string \<Rightarrow> (string \<times> string) list \<Rightarrow> string" where
  "listenerScript ident evs =
     ''const '' @ ident @ '' = document.querySelector('' @ [CHR 0x27] @ ''[data-identifier=\"''
       @ ident @ ''\"]'' @ [CHR 0x27] @ '');'' @ [CHR 0x0A]
       @ join (map (\<lambda>(t, l). ident @ ''.addEventListener(\"'' @ t @ ''\", '' @ l @ '');'') evs)
              [CHR 0x0A]"

section \<open>Rendering\<close>

text \<open>
  \<^verbatim>\<open>#renderToString\<close> and \<^verbatim>\<open>#parseTag\<close> call each other, and a component may
  return a node that contains the component again, so the recursion need not end. The
  first argument bounds the depth of the calls: the result is \<open>None\<close> when the bound
  is used up, and otherwise what the call produced (the string it returns or the error
  it throws), the Document as the call left it, and the world as the call left it.
\<close>

type_synonym outcome = "((error + string) \<times> document \<times> world) option"

text \<open>
  Three ways a step of an \<^verbatim>\<open>async\<close> method goes on. \<open>attempt\<close> is a synchronous
  operation that may throw and has no effect: the method rejects with the error, the
  Document and the world as they are, or goes on with the value. \<open>called\<close> is the call
  of the creation callback, which may throw and leaves a world. \<open>andThen\<close> is
  \<^verbatim>\<open>await\<close> of a recursive call: it does not come back, or it throws and the error
  propagates with the Document and the world as that call left them, or it returns a
  string and the method goes on from there.
\<close>

definition attempt :: "document \<Rightarrow> world \<Rightarrow> error + 'a \<Rightarrow> ('a \<Rightarrow> outcome) \<Rightarrow> outcome" where
  "attempt d w x f = (case x of Inl e \<Rightarrow> Some (Inl e, d, w) | Inr v \<Rightarrow> f v)"

definition called ::
  "document \<Rightarrow> (error + jsval) \<times> world \<Rightarrow> (jsval \<Rightarrow> world \<Rightarrow> outcome) \<Rightarrow> outcome" where
  "called d x f = (case x of (Inl e, w1) \<Rightarrow> Some (Inl e, d, w1) | (Inr node, w1) \<Rightarrow> f node w1)"

definition andThen :: "outcome \<Rightarrow> (string \<Rightarrow> document \<Rightarrow> world \<Rightarrow> outcome) \<Rightarrow> outcome" where
  "andThen m f =
     (case m of
        None \<Rightarrow> None
      | Some (Inl e, d1, w1) \<Rightarrow> Some (Inl e, d1, w1)
      | Some (Inr s, d1, w1) \<Rightarrow> f s d1 w1)"

text \<open>
  The destructuring \<^verbatim>\<open>let { type, props = {} } = element\<close> reads the two fields, and
  takes the empty object for \<open>props\<close> when the field is missing or undefined.
\<close>

definition propsOf :: "jsval \<Rightarrow> jsval" where
  "propsOf element =
     (if getField element ''props'' = VUndefined then VObj [] else getField element ''props'')"

fun arrayElements :: "jsval \<Rightarrow> jsval list option" where
  "arrayElements (VArr els) = Some els"
| "arrayElements v = None"

function renderToString :: "nat \<Rightarrow> fenv \<Rightarrow> document \<Rightarrow> world \<Rightarrow> jsval \<Rightarrow> outcome"
  and renderElements ::
    "nat \<Rightarrow> fenv \<Rightarrow> document \<Rightarrow> world \<Rightarrow> jsval list \<Rightarrow> string \<Rightarrow> outcome"
  and parseTag :: "nat \<Rightarrow> fenv \<Rightarrow> document \<Rightarrow> world \<Rightarrow> jsval \<Rightarrow> jsval \<Rightarrow> outcome" where
  "renderToString 0 env d w element = None"
| "renderToString (Suc n) env d w element =
     (if element = VUndefined then Some (Inr ''undefined'', d, w)
      else if element = VNull then Some (Inr ''null'', d, w)
      else if typeof element = ''string'' \<or> typeof element = ''number'' then
        attempt d w (toStringJS env element) (\<lambda>s. Some (Inr s, d, w))
      else
        (case arrayElements element of
           Some els \<Rightarrow> renderElements n env d w els []
         | None \<Rightarrow>
           (let type = getField element ''type'';
                props = propsOf element
            in
              if typeof type = ''symbol'' then
                attempt d w (getProp props ''children'') (\<lambda>c.
                  if truthy c then renderToString n env d w c else Some (Inr [], d, w))
              else if typeof type = ''function'' then
                attempt d w (getProp props ''children'') (\<lambda>c.
                  if truthy c then
                    andThen (renderToString n env d w c) (\<lambda>s d1 w1.
                      called d1
                        (createComponent d1 env type
                           (VObj (AList.update ''children'' (VStr s) (ownEntries props))) w1)
                        (\<lambda>node w2. renderToString n env d1 w2 node))
                  else
                    called d (createComponent d env type props w)
                      (\<lambda>node w1. renderToString n env d w1 node))
              else parseTag n env d w type props)))"
| "renderElements n env d w [] acc = Some (Inr acc, d, w)"
| "renderElements n env d w (el # els) acc =
     andThen (renderToString n env d w el) (\<lambda>s d1 w1. renderElements n env d1 w1 els (acc @ s))"
| "parseTag 0 env d w type attributes = None"
| "parseTag (Suc n) env d w type attributes =
     attempt d w (toStringJS env type) (\<lambda>tag.
     attempt d w (objectEntries attributes) (\<lambda>entries.
     attempt d w (forEachAttribute env entries
                    \<lparr>html = ''<'' @ tag, children = VStr [], eventListeners = []\<rparr>) (\<lambda>st.
       (let ident = mkIdentifier tag (identifierCounter d);
            minted = (eventListeners st \<noteq> []);
            opening = (if minted then html st @ dataAttributes ident (eventListeners st)
                       else html st);
            d1 = (if minted
                  then d\<lparr>identifierCounter := identifierCounter d + 1,
                         listeners := listeners d @ [listenerScript ident (eventListeners st)]\<rparr>
                  else d)
        in andThen (renderToString n env d1 w (children st)) (\<lambda>inner d2 w2.
             Some (Inr (opening @ ''>'' @ inner @ ''</'' @ tag @ ''>''), d2, w2))))))"
  by pat_completeness auto

termination
  by (relation "inv_image (less_than <*lex*> less_than) (\<lambda>x. case x of
        Inl (n, env, d, w, element) \<Rightarrow> (2 * n, 0)
      | Inr (Inl (n, env, d, w, els, acc)) \<Rightarrow> (2 * n + 1, length els)
      | Inr (Inr (n, env, d, w, type, attributes)) \<Rightarrow> (2 * n, 0))") auto

text \<open>
  The template literal \<^verbatim>\<open>renderToDynamicMarkup\<close> returns, line by line; it reads the
  fields after the content has been rendered.
\<close>

definition nl :: string where
  "nl = [CHR 0x0A]"

definition apostrophe :: string where
  "apostrophe = [CHR 0x27]"

definition spaces :: "nat \<Rightarrow> string" where
  "spaces n = replicate n (CHR '' '')"

text \<open>The script element that attaches the listeners (lines 68 to 72 of the source).\<close>

definition listenerSetupScript :: "string list \<Rightarrow> string" where
  "listenerSetupScript ls = concat
     [''<script>'', nl,
      ''document.addEventListener('', apostrophe, ''DOMContentLoaded'', apostrophe,
        '', function() {'', nl,
      join ls (nl @ nl), nl,
      ''});'', nl,
      spaces 20, ''</script>'']"

definition page :: "document \<Rightarrow> string \<Rightarrow> string" where
  "page d content = concat
     [nl,
      spaces 12, ''<!DOCTYPE html>'', nl,
      spaces 12, ''<html lang='', apostrophe, lang d, apostrophe, ''>'', nl,
      spaces 16, ''<head>'', nl,
      spaces 20, ''<title>'', title d, ''</title>'', nl,
      spaces 20, join (metas d) nl, nl,
      spaces 20, join (links d) nl, nl,
      spaces 20, join (styles d) nl, nl,
      spaces 20, join (headerScripts d) nl, nl,
      spaces 16, ''</head>'', nl,
      spaces 16, ''<body>'', nl,
      spaces 20, content, nl,
      spaces 20, join (bodyScripts d) nl, nl,
      spaces 20, listenerSetupScript (listeners d), nl,
      spaces 20, ''<noscript>'', noScript d, ''</noscript>'', nl,
      spaces 16, ''</body>'', nl,
      spaces 12, ''</html>'', nl,
      spaces 8]"

definition renderToDynamicMarkup ::
  "nat \<Rightarrow> fenv \<Rightarrow> document \<Rightarrow> world \<Rightarrow> jsval \<Rightarrow> outcome" where
  "renderToDynamicMarkup n env d w reactElement =
     andThen (renderToString n env d w reactElement) (\<lambda>content d' w'.
       Some (Inr (page d' content), d', w'))"

section \<open>Vocabulary of the properties\<close>

text \<open>
  An element that gets an identifier is described by its tag name and its event
  listeners. For a list of such elements and the value \<open>c\<close> of the counter when the
  first of them is met, \<open>mintedIdentifiers\<close> are the identifiers they get and
  \<open>registryEntries\<close> the strings pushed onto \<^verbatim>\<open>#listeners\<close>, in that order.
\<close>

type_synonym minted = "string \<times> (string \<times> string) list"


fun registryEntries :: "nat \<Rightarrow> minted list \<Rightarrow> string list" where
  "registryEntries c [] = []"
| "registryEntries c ((tag, evs) # ms) =
     listenerScript (mkIdentifier tag c) evs # registryEntries (Suc c) ms"

text \<open>
  \<open>afterMinting d ms\<close> is the Document \<open>d\<close> after the elements \<open>ms\<close> were given
  identifiers: the counter has gone up by their number and the registry has their
  entries at its end; no other field has changed. \<open>mints d ms d'\<close> says that \<open>d'\<close> is
  this Document and that each of the elements has at least one event listener.
\<close>

definition afterMinting :: "document \<Rightarrow> minted list \<Rightarrow> document" where
  "afterMinting d ms =
     d\<lparr>identifierCounter := identifierCounter d + length ms,
       listeners := listeners d @ registryEntries (identifierCounter d) ms\<rparr>"

definition mints :: "document \<Rightarrow> minted list \<Rightarrow> document \<Rightarrow> bool" where
  "mints d ms d' \<longleftrightarrow> d' = afterMinting d ms \<and> list_all (\<lambda>m. snd m \<noteq> []) ms"

definition stepsFrom :: "document \<Rightarrow> outcome \<Rightarrow> bool" where
  "stepsFrom d out =
     (case out of None \<Rightarrow> True | Some (r, d', w') \<Rightarrow> (\<exists>ms. mints d ms d'))"

text \<open>
  An attribute is an event binding when its key is not \<^verbatim>\<open>children\<close>, the key starts
  with \<^verbatim>\<open>on\<close> whatever the case of its letters, and its value is a function. The
  binding is then the pair of the key without its first two characters, in lower case,
  and the source text of the function. \<open>bindings\<close> are the bindings of the event
  attributes of an attribute list, in the order of the list.
\<close>

definition isEventBinding :: "string \<times> jsval \<Rightarrow> bool" where
  "isEventBinding kv \<longleftrightarrow>
     fst kv \<noteq> ''children'' \<and> startsWith (toLowerCase (fst kv)) ''on''
     \<and> typeof (snd kv) = ''function''"

definition eventBinding :: "fenv \<Rightarrow> string \<times> jsval \<Rightarrow> string \<times> string" where
  "eventBinding env kv =
     (toLowerCase (substring (fst kv) 2), case snd kv of VFun f \<Rightarrow> source (env f) | _ \<Rightarrow> [])"

definition bindings :: "fenv \<Rightarrow> (string \<times> jsval) list \<Rightarrow> (string \<times> string) list" where
  "bindings env attrs = map (eventBinding env) (filter isEventBinding attrs)"

text \<open>
  A node of unrecognized shape: not \<^verbatim>\<open>undefined\<close>, \<^verbatim>\<open>null\<close>, a string, a number
  or a boolean, not an array, and no object whose \<open>type\<close> is a string (an element), a
  symbol (a fragment) or a function (a component).
\<close>

definition unrecognized :: "jsval \<Rightarrow> bool" where
  "unrecognized v \<longleftrightarrow>
     (case v of
        VSymbol s \<Rightarrow> True
      | VFun f \<Rightarrow> True
      | VObj es \<Rightarrow> typeof (getField v ''type'') \<noteq> ''string''
                   \<and> typeof (getField v ''type'') \<noteq> ''symbol''
                   \<and> typeof (getField v ''type'') \<noteq> ''function''
      | _ \<Rightarrow> False)"





subsection \<open>Trees without components\<close>

text \<open>
  The nodes of the specification's data model that hold no component: the scalar leaves
  (a boolean leaf is left out, see the section on scalar leaves), a list, a fragment
  with a list of children, and an element with its tag name, its attributes and its
  children. \<open>toJs\<close> is the value such a node is for the renderer: an element is the
  object React makes, with the children as the last entry of the props.
\<close>

datatype node =
    NText string
  | NNumber int
  | NNull
  | NUndefined
  | NList "node list"
  | NFragment "node list"
  | NElement string "(string \<times> jsval) list" node


text \<open>
  The elements of a tree that have at least one event binding, in depth-first order
  from left to right: an element, then what its children hold; the nodes of a list one
  after the other.
\<close>

fun discovered :: "fenv \<Rightarrow> node \<Rightarrow> minted list"
  and discoveredList :: "fenv \<Rightarrow> node list \<Rightarrow> minted list" where
  "discovered env (NText s) = []"
| "discovered env (NNumber i) = []"
| "discovered env NNull = []"
| "discovered env NUndefined = []"
| "discovered env (NList xs) = discoveredList env xs"
| "discovered env (NFragment xs) = discoveredList env xs"
| "discovered env (NElement tag attrs child) =
     (if bindings env attrs = [] then [] else [(tag, bindings env attrs)]) @ discovered env child"
| "discoveredList env [] = []"
| "discoveredList env (x # xs) = discovered env x @ discoveredList env xs"

text \<open>
  The text of the attributes of a tag, as \<^verbatim>\<open>#parseTag\<close> writes it, and whether the
  attributes of every element of a tree can be written (none of them throws).
\<close>

definition attributeText :: "fenv \<Rightarrow> (string \<times> jsval) list \<Rightarrow> string" where
  "attributeText env attrs =
     (case forEachAttribute env attrs \<lparr>html = [], children = VStr [], eventListeners = []\<rparr> of
        Inl e \<Rightarrow> []
      | Inr st \<Rightarrow> html st)"


text \<open>
  The markup of a tree when the counter stands at \<open>c\<close>: the identifier of an element
  with event bindings is its tag name, an underscore and \<open>c\<close> plus the number of such
  elements that come before it in depth-first order from left to right.
\<close>

fun markup :: "fenv \<Rightarrow> nat \<Rightarrow> node \<Rightarrow> string"
  and markupList :: "fenv \<Rightarrow> nat \<Rightarrow> node list \<Rightarrow> string" where
  "markup env c (NText s) = s"
| "markup env c (NNumber i) = numToString i"
| "markup env c NNull = ''null''"
| "markup env c NUndefined = ''undefined''"
| "markup env c (NList xs) = markupList env c xs"
| "markup env c (NFragment xs) = markupList env c xs"
| "markup env c (NElement tag attrs child) =
     ''<'' @ tag @ attributeText env attrs
       @ (if bindings env attrs = [] then []
          else dataAttributes (mkIdentifier tag c) (bindings env attrs))
       @ ''>'' @ markup env (if bindings env attrs = [] then c else c + 1) child
       @ ''</'' @ tag @ ''>''"
| "markupList env c [] = []"
| "markupList env c (x # xs) =
     markup env c x @ markupList env (c + length (discovered env x)) xs"


section \<open>Examples\<close>

text \<open>
  A store in which every function is \<^verbatim>\<open>() => alert(1)\<close>, the button of the README
  with function 0 as its click handler, and the registry entry of such a button.
\<close>

definition exampleStore :: fenv where
  "exampleStore f = \<lparr>source = ''() => alert(1)'', invoke = (\<lambda>w args. (Inr VUndefined, w))\<rparr>"

definition clickButton :: jsval where
  "clickButton =
     VObj [(''type'', VStr ''button''),
           (''props'', VObj [(''onClick'', VFun 0), (''children'', VStr ''Click me'')])]"

definition clickEntry :: "string \<Rightarrow> string" where
  "clickEntry ident =
     ''const '' @ ident @ '' = document.querySelector('' @ apostrophe @ ''[data-identifier=\"''
       @ ident @ ''\"]'' @ apostrophe @ '');'' @ nl
       @ ident @ ''.addEventListener(\"click\", () => alert(1));''"




text \<open>
  Three components. \<^verbatim>\<open>(props, children) => children\<close> returns its second argument.
  \<open>paragraphComponent\<close> wraps the children it finds in its props in a \<^verbatim>\<open>p\<close> element.
  \<open>sectionComponent\<close> wraps them in a \<^verbatim>\<open>section\<close> element that has a click handler,
  the function 1 of its store; \<open>wrappedButton\<close> is this component around a button
  with a click handler.
\<close>

definition secondArgument :: jsfun where
  "secondArgument =
     \<lparr>source = ''(props, children) => children'',
      invoke = (\<lambda>w args. (Inr (if 1 < length args then args ! 1 else VUndefined), w))\<rparr>"

definition secondArgumentStore :: fenv where
  "secondArgumentStore f = secondArgument"

definition paragraphComponent :: jsfun where
  "paragraphComponent =
     \<lparr>source = ''props => React.createElement(\"p\", null, props.children)'',
      invoke = (\<lambda>w args. case args of
                  [] \<Rightarrow> (Inl TypeError, w)
                | p # rest \<Rightarrow>
                    (case getProp p ''children'' of
                       Inl e \<Rightarrow> (Inl e, w)
                     | Inr c \<Rightarrow> (Inr (VObj [(''type'', VStr ''p''),
                                             (''props'', VObj [(''children'', c)])]), w)))\<rparr>"

definition paragraphStore :: fenv where
  "paragraphStore f = paragraphComponent"











section \<open>Evaluation\<close>

lemmas eval_defs = attempt_def andThen_def called_def attributeCallback_def startsWith_def
  toLowerCase_def toLowerChar_def substring_def mkIdentifier_def numToString_def digits.simps
  digitChar_def dataAttributes_def listenerScript_def Let_def styleText_def propsOf_def

section \<open>The button of the README\<close>

text \<open>
  C2. Rendered with a fresh Document, the element
  \<^verbatim>\<open>{type: "button", props: {onClick: fn, children: "Click me"}}\<close> gives exactly the
  markup \<^verbatim>\<open><button data-identifier="button_0" data-listeners="click">Click me</button>\<close>,
  the counter goes from 0 to 1, and exactly one entry is pushed onto the listener
  registry: the script that looks the element up by the identifier \<^verbatim>\<open>button_0\<close> and
  adds the source text of \<^verbatim>\<open>fn\<close> as its listener for the event \<^verbatim>\<open>click\<close>. This holds
  for every handler, in every world (which the render leaves as it is) and for every
  bound of at least three nested calls.
\<close>

theorem C2_button_markup:
  "renderToString (Suc (Suc (Suc n))) env newDocument w
     (VObj [(''type'', VStr ''button''),
            (''props'', VObj [(''onClick'', VFun f), (''children'', VStr ''Click me'')])])
   = Some (Inr ''<button data-identifier=\"button_0\" data-listeners=\"click\">Click me</button>'',
           newDocument\<lparr>identifierCounter := 1,
             listeners := [''const button_0 = document.querySelector('' @ apostrophe
                @ ''[data-identifier=\"button_0\"]'' @ apostrophe @ '');'' @ nl
                @ ''button_0.addEventListener(\"click\", '' @ source (env f) @ '');'']\<rparr>,
           w)"
  by (simp add: eval_defs newDocument_def apostrophe_def nl_def)

section \<open>Identifiers are told apart by their counter\<close>










section \<open>What a render does to the Document\<close>

lemma registryEntries_append:
  "registryEntries c (ms @ ms') = registryEntries c ms @ registryEntries (c + length ms) ms'"
  by (induction c ms rule: registryEntries.induct) simp_all

lemma afterMinting_Nil: "afterMinting d [] = d"
  by (simp add: afterMinting_def)

lemma afterMinting_append: "afterMinting (afterMinting d ms) ms' = afterMinting d (ms @ ms')"
  by (simp add: afterMinting_def registryEntries_append add.assoc)

lemma afterMinting_one:
  "d\<lparr>identifierCounter := identifierCounter d + 1,
      listeners := listeners d @ [listenerScript (mkIdentifier tag (identifierCounter d)) evs]\<rparr>
   = afterMinting d [(tag, evs)]"
  by (simp add: afterMinting_def)


lemma mints_refl: "mints d [] d"
  by (simp add: mints_def afterMinting_Nil)

lemma mints_trans: "mints d ms d1 \<Longrightarrow> mints d1 ms' d2 \<Longrightarrow> mints d (ms @ ms') d2"
  by (simp add: mints_def afterMinting_append)

lemma mints_one:
  "evs \<noteq> [] \<Longrightarrow>
   mints d [(tag, evs)]
     (d\<lparr>identifierCounter := identifierCounter d + 1,
        listeners := listeners d @ [listenerScript (mkIdentifier tag (identifierCounter d)) evs]\<rparr>)"
  by (simp add: mints_def afterMinting_def)

lemma stepsFrom_None: "stepsFrom d None"
  by (simp add: stepsFrom_def)

lemma stepsFrom_here: "stepsFrom d (Some (r, d, w))"
  using mints_refl by (auto simp: stepsFrom_def)

lemma stepsFrom_attempt: "(\<And>v. stepsFrom d (f v)) \<Longrightarrow> stepsFrom d (attempt d w x f)"
  by (cases x) (simp_all add: attempt_def stepsFrom_here)

lemma stepsFrom_called: "(\<And>node w1. stepsFrom d (f node w1)) \<Longrightarrow> stepsFrom d (called d x f)"
  by (cases x; cases "fst x") (simp_all add: called_def stepsFrom_here)

lemma stepsFrom_andThen:
  assumes "stepsFrom d m" "\<And>s d1 w1. stepsFrom d1 (f s d1 w1)"
  shows "stepsFrom d (andThen m f)"
proof (cases m)
  case None
  then show ?thesis by (simp add: andThen_def stepsFrom_def)
next
  case (Some p)
  obtain r d1 w1 where p: "p = (r, d1, w1)" by (cases p)
  from assms(1) Some p obtain ms where ms: "mints d ms d1" by (auto simp: stepsFrom_def)
  show ?thesis
  proof (cases r)
    case (Inl e)
    with Some p ms show ?thesis by (auto simp: andThen_def stepsFrom_def)
  next
    case (Inr s)
    show ?thesis
    proof (cases "f s d1 w1")
      case None
      with Some p Inr show ?thesis by (simp add: andThen_def stepsFrom_def)
    next
      case (Some q)
      obtain r' d2 w2 where q: "q = (r', d2, w2)" by (cases q)
      from assms(2) [of d1 s w1] Some q obtain ms' where "mints d1 ms' d2"
        by (auto simp: stepsFrom_def)
      with ms have "mints d (ms @ ms') d2" by (rule mints_trans)
      with \<open>m = Some p\<close> p Inr Some q show ?thesis by (auto simp: andThen_def stepsFrom_def)
    qed
  qed
qed

lemma stepsFrom_mint:
  assumes "stepsFrom d1 m" "mints d ms d1"
  shows "stepsFrom d m"
  using assms by (auto simp: stepsFrom_def intro: mints_trans split: option.splits)

lemma stepsFrom_renderElements:
  assumes "\<And>d w t. stepsFrom d (renderToString n env d w t)"
  shows "stepsFrom d (renderElements n env d w els acc)"
proof (induction els arbitrary: d w acc)
  case Nil
  show ?case by (simp add: stepsFrom_here)
next
  case (Cons el els)
  show ?case by (simp, rule stepsFrom_andThen [OF assms Cons])
qed

lemma stepsFrom_parseTag:
  assumes "\<And>d w t. stepsFrom d (renderToString n env d w t)"
  shows "stepsFrom d (parseTag (Suc n) env d w type attrs)"
proof -
  have inner: "stepsFrom d1 (andThen (renderToString n env d1 w c)
                 (\<lambda>inner d2 w2. Some (Inr (g inner), d2, w2)))"
    for d1 c and g :: "string \<Rightarrow> string"
    by (intro stepsFrom_andThen assms stepsFrom_here)
  have body: "stepsFrom d
     (andThen (renderToString n env
        (if evs \<noteq> [] then d\<lparr>identifierCounter := identifierCounter d + 1,
             listeners := listeners d @ [listenerScript (mkIdentifier tag (identifierCounter d)) evs]\<rparr>
         else d) w c) (\<lambda>inner d2 w2. Some (Inr (g inner), d2, w2)))" for evs tag c g
  proof (cases "evs = []")
    case True
    then show ?thesis by (simp add: inner)
  next
    case False
    have "stepsFrom d
      (andThen (renderToString n env
        (d\<lparr>identifierCounter := identifierCounter d + 1,
             listeners := listeners d @ [listenerScript (mkIdentifier tag (identifierCounter d)) evs]\<rparr>)
        w c)
        (\<lambda>inner d2 w2. Some (Inr (g inner), d2, w2)))"
      by (rule stepsFrom_mint [OF inner mints_one [OF False]])
    with False show ?thesis by simp
  qed
  show ?thesis
    by (simp add: Let_def) (intro stepsFrom_attempt body)
qed

lemma stepsFrom_renderToString_Suc:
  assumes IH: "\<And>d w t. stepsFrom d (renderToString n env d w t)"
    and IHtag: "\<And>d w type attrs. stepsFrom d (parseTag n env d w type attrs)"
  shows "stepsFrom d (renderToString (Suc n) env d w t)"
proof -
  have comp: "stepsFrom d (called d x (\<lambda>node w1. renderToString n env d w1 node))" for d x
    by (intro stepsFrom_called IH)
  show ?thesis
    by (simp add: Let_def stepsFrom_here stepsFrom_attempt stepsFrom_andThen
          stepsFrom_renderElements IH IHtag comp split: option.split)
qed

lemma stepsFrom_render:
  "stepsFrom d (renderToString n env d w t) \<and> stepsFrom d (parseTag n env d w type attrs)"
proof (induction n arbitrary: d w t type attrs)
  case 0
  show ?case by (simp add: stepsFrom_None)
next
  case (Suc n)
  then show ?case
    using stepsFrom_renderToString_Suc [of n env] stepsFrom_parseTag [of n env] by blast
qed

lemma render_mints:
  "renderToString n env d w t = Some (r, d', w') \<Longrightarrow> \<exists>ms. mints d ms d'"
  using stepsFrom_render [of d n env w t] by (simp add: stepsFrom_def)

lemma renderElements_mints:
  "renderElements n env d w els acc = Some (r, d', w') \<Longrightarrow> \<exists>ms. mints d ms d'"
  using stepsFrom_renderElements [of n env d w els acc] stepsFrom_render [of _ n env]
  by (simp add: stepsFrom_def)

lemma mints_createComponent: "mints d ms d' \<Longrightarrow> createComponent d' = createComponent d"
  by (simp add: mints_def afterMinting_def)

lemma render_createComponent:
  "renderToString n env d w t = Some (r, d', w') \<Longrightarrow> createComponent d' = createComponent d"
  using render_mints mints_createComponent by blast



section \<open>Event attributes\<close>

lemma typeof_function: "typeof v = ''function'' \<longleftrightarrow> (\<exists>f. v = VFun f)"
  by (cases v) simp_all

lemma attributeCallback_event:
  assumes "isEventBinding (key, val)"
  shows "attributeCallback env st (key, val)
         = Inr (st\<lparr>eventListeners := eventListeners st @ [eventBinding env (key, val)]\<rparr>)"
proof -
  from assms obtain f where "val = VFun f" by (cases val) (simp_all add: isEventBinding_def)
  with assms show ?thesis
    by (simp add: isEventBinding_def eventBinding_def attributeCallback_def)
qed

lemma attributeCallback_other:
  assumes "\<not> isEventBinding kv"
  shows "attributeCallback env (st\<lparr>eventListeners := l\<rparr>) kv
         = map_sum id (\<lambda>s. s\<lparr>eventListeners := l\<rparr>) (attributeCallback env st kv)"
    and "attributeCallback env st kv = Inr st' \<Longrightarrow> eventListeners st' = eventListeners st"
proof -
  obtain key val where kv: "kv = (key, val)" by (cases kv)
  with assms have ne: "key = ''children'' \<or> \<not> startsWith (toLowerCase key) ''on'' \<or> typeof val \<noteq> ''function''"
    by (auto simp: isEventBinding_def)
  show "attributeCallback env (st\<lparr>eventListeners := l\<rparr>) kv
         = map_sum id (\<lambda>s. s\<lparr>eventListeners := l\<rparr>) (attributeCallback env st kv)"
    using ne by (auto simp: kv attributeCallback_def split: sum.splits)
  show "attributeCallback env st kv = Inr st' \<Longrightarrow> eventListeners st' = eventListeners st"
    using ne by (auto simp: kv attributeCallback_def split: sum.splits if_splits)
qed

lemma forEachAttribute_other:
  assumes "\<forall>kv \<in> set es. \<not> isEventBinding kv"
  shows "forEachAttribute env es (st\<lparr>eventListeners := l\<rparr>)
         = map_sum id (\<lambda>s. s\<lparr>eventListeners := l\<rparr>) (forEachAttribute env es st)"
  using assms
proof (induction es arbitrary: st)
  case Nil
  show ?case by simp
next
  case (Cons kv es)
  then have kv: "\<not> isEventBinding kv" and es: "\<forall>kv \<in> set es. \<not> isEventBinding kv" by simp_all
  show ?case
  proof (cases "attributeCallback env st kv")
    case (Inl e)
    then show ?thesis by (simp add: attributeCallback_other(1) [OF kv])
  next
    case (Inr st1)
    then show ?thesis by (simp add: attributeCallback_other(1) [OF kv] Cons.IH [OF es])
  qed
qed

lemma forEachAttribute_events:
  assumes "forEachAttribute env es st = Inr st'"
  shows "forEachAttribute env (filter (\<lambda>kv. \<not> isEventBinding kv) es) st
           = Inr (st'\<lparr>eventListeners := eventListeners st\<rparr>)
         \<and> eventListeners st' = eventListeners st @ map (eventBinding env) (filter isEventBinding es)"
  using assms
proof (induction es arbitrary: st)
  case Nil
  then show ?case by simp
next
  case (Cons kv es)
  obtain key val where kvp: "kv = (key, val)" by (cases kv)
  show ?case
  proof (cases "isEventBinding kv")
    case True
    let ?st1 = "st\<lparr>eventListeners := eventListeners st @ [eventBinding env kv]\<rparr>"
    from True have step: "attributeCallback env st kv = Inr ?st1"
      using attributeCallback_event [of key val env st] by (simp add: kvp)
    with Cons.prems have run: "forEachAttribute env es ?st1 = Inr st'" by simp
    from Cons.IH [OF run]
    have a: "forEachAttribute env (filter (\<lambda>kv. \<not> isEventBinding kv) es) ?st1
               = Inr (st'\<lparr>eventListeners := eventListeners ?st1\<rparr>)"
      and b: "eventListeners st' = eventListeners ?st1 @ map (eventBinding env) (filter isEventBinding es)"
      by simp_all
    have "forEachAttribute env (filter (\<lambda>kv. \<not> isEventBinding kv) es) st
          = forEachAttribute env (filter (\<lambda>kv. \<not> isEventBinding kv) es) (?st1\<lparr>eventListeners := eventListeners st\<rparr>)"
      by simp
    also have "\<dots> = map_sum id (\<lambda>s. s\<lparr>eventListeners := eventListeners st\<rparr>)
                       (forEachAttribute env (filter (\<lambda>kv. \<not> isEventBinding kv) es) ?st1)"
      by (rule forEachAttribute_other) simp
    also have "\<dots> = Inr (st'\<lparr>eventListeners := eventListeners st\<rparr>)"
      by (simp add: a)
    finally show ?thesis using True b by simp
  next
    case False
    from Cons.prems obtain st1 where step: "attributeCallback env st kv = Inr st1"
      and run: "forEachAttribute env es st1 = Inr st'"
      by (auto split: sum.splits)
    from attributeCallback_other(2) [OF False step] have ev: "eventListeners st1 = eventListeners st" .
    from Cons.IH [OF run] ev False step show ?thesis by simp
  qed
qed

text \<open>
  C3. An attribute that is an event binding (its key is not \<^verbatim>\<open>children\<close>, starts with
  \<^verbatim>\<open>on\<close> in any case, and its value is a function) is pushed onto the event listeners
  with the event type equal to the key without its first two characters, in lower case,
  and the source text of the function; the tag text is left as it was. Over a whole
  attribute list, the event listeners are exactly the bindings of the event attributes
  in their order, and the tag text and the children are what the list without its event
  attributes gives: no event attribute is written into the tag as a key and a value.
\<close>

theorem C3_event_attributes:
  "(isEventBinding (key, val) \<longrightarrow>
      attributeCallback env st (key, val)
        = Inr (st\<lparr>eventListeners := eventListeners st @ [eventBinding env (key, val)]\<rparr>)
      \<and> fst (eventBinding env (key, val)) = toLowerCase (drop 2 key)
      \<and> (\<forall>f. val = VFun f \<longrightarrow> snd (eventBinding env (key, val)) = source (env f)))
   \<and> (forEachAttribute env es st = Inr st' \<longrightarrow>
        forEachAttribute env (filter (\<lambda>kv. \<not> isEventBinding kv) es) st
          = Inr (st'\<lparr>eventListeners := eventListeners st\<rparr>)
        \<and> eventListeners st'
          = eventListeners st @ map (eventBinding env) (filter isEventBinding es))"
  using attributeCallback_event [of key val env st] forEachAttribute_events [of env es st st']
  by (auto simp: eventBinding_def substring_def)

theorem C3_event_attributes_witness:
  "isEventBinding (''onClick'', VFun 0)
   \<and> attributeCallback exampleStore \<lparr>html = ''<button'', children = VStr [], eventListeners = []\<rparr>
         (''onClick'', VFun 0)
       = Inr \<lparr>html = ''<button'', children = VStr [],
               eventListeners = [(''click'', ''() => alert(1)'')]\<rparr>
   \<and> forEachAttribute exampleStore [(''onClick'', VFun 0), (''children'', VStr ''Click me'')]
         \<lparr>html = ''<button'', children = VStr [], eventListeners = []\<rparr>
       = Inr \<lparr>html = ''<button'', children = VStr ''Click me'',
               eventListeners = [(''click'', ''() => alert(1)'')]\<rparr>
   \<and> forEachAttribute exampleStore
         (filter (\<lambda>kv. \<not> isEventBinding kv)
            [(''onClick'', VFun 0), (''children'', VStr ''Click me'')])
         \<lparr>html = ''<button'', children = VStr [], eventListeners = []\<rparr>
       = Inr \<lparr>html = ''<button'', children = VStr ''Click me'', eventListeners = []\<rparr>"
proof -
  have ev: "isEventBinding (''onClick'', VFun 0)"
    by (simp add: isEventBinding_def startsWith_def toLowerCase_def toLowerChar_def)
  have run: "forEachAttribute exampleStore [(''onClick'', VFun 0), (''children'', VStr ''Click me'')]
         \<lparr>html = ''<button'', children = VStr [], eventListeners = []\<rparr>
       = Inr \<lparr>html = ''<button'', children = VStr ''Click me'',
               eventListeners = [(''click'', ''() => alert(1)'')]\<rparr>"
    by (simp add: eval_defs exampleStore_def)
  from C3_event_attributes [of "''onClick''" "VFun 0" exampleStore
      "\<lparr>html = ''<button'', children = VStr [], eventListeners = []\<rparr>"
      "[(''onClick'', VFun 0), (''children'', VStr ''Click me'')]"
      "\<lparr>html = ''<button'', children = VStr ''Click me'',
         eventListeners = [(''click'', ''() => alert(1)'')]\<rparr>"] ev run
  show ?thesis
    by (simp add: eventBinding_def substring_def toLowerCase_def toLowerChar_def exampleStore_def)
qed

section \<open>Boolean, null and undefined attributes\<close>

text \<open>
  C4, as the code has it. For a key other than \<^verbatim>\<open>children\<close>: the value \<^verbatim>\<open>true\<close>
  appends a space and the bare key, with no \<^verbatim>\<open>="..."\<close> part, and the value
  \<^verbatim>\<open>false\<close> leaves the tag text as it was. The values \<^verbatim>\<open>undefined\<close> and
  \<^verbatim>\<open>null\<close> are not left out: they are written as \<^verbatim>\<open>key="undefined"\<close> and, for a
  key other than \<^verbatim>\<open>style\<close>, \<^verbatim>\<open>key="null"\<close> (with \<^verbatim>\<open>class\<close> for the key
  \<^verbatim>\<open>className\<close>).
\<close>

theorem C4_boolean_attributes:
  "key \<noteq> ''children'' \<longrightarrow>
     attributeCallback env st (key, VBool True) = Inr (st\<lparr>html := html st @ '' '' @ key\<rparr>)
   \<and> attributeCallback env st (key, VBool False) = Inr st
   \<and> attributeCallback env st (key, VUndefined)
       = Inr (st\<lparr>html := html st @ '' '' @ (if key = ''className'' then ''class'' else key)
                            @ ''=\"undefined\"''\<rparr>)
   \<and> (toLowerCase key \<noteq> ''style'' \<longrightarrow>
        attributeCallback env st (key, VNull)
          = Inr (st\<lparr>html := html st @ '' '' @ (if key = ''className'' then ''class'' else key)
                               @ ''=\"null\"''\<rparr>))"
  by (simp add: attributeCallback_def)

theorem C4_boolean_attributes_witness:
  "''hidden'' \<noteq> ''children'' \<and> toLowerCase ''hidden'' \<noteq> ''style''
   \<and> attributeCallback exampleStore \<lparr>html = ''<div'', children = VStr [], eventListeners = []\<rparr>
         (''hidden'', VBool True)
       = Inr \<lparr>html = ''<div hidden'', children = VStr [], eventListeners = []\<rparr>
   \<and> attributeCallback exampleStore \<lparr>html = ''<div'', children = VStr [], eventListeners = []\<rparr>
         (''hidden'', VBool False)
       = Inr \<lparr>html = ''<div'', children = VStr [], eventListeners = []\<rparr>
   \<and> attributeCallback exampleStore \<lparr>html = ''<div'', children = VStr [], eventListeners = []\<rparr>
         (''hidden'', VUndefined)
       = Inr \<lparr>html = ''<div hidden=\"undefined\"'', children = VStr [], eventListeners = []\<rparr>
   \<and> attributeCallback exampleStore \<lparr>html = ''<div'', children = VStr [], eventListeners = []\<rparr>
         (''hidden'', VNull)
       = Inr \<lparr>html = ''<div hidden=\"null\"'', children = VStr [], eventListeners = []\<rparr>"
  using C4_boolean_attributes [of "''hidden''" exampleStore
      "\<lparr>html = ''<div'', children = VStr [], eventListeners = []\<rparr>"]
  by (simp add: toLowerCase_def toLowerChar_def)

text \<open>
  The attributes \<^verbatim>\<open>hidden: null\<close> and \<^verbatim>\<open>title: undefined\<close> of a \<^verbatim>\<open>div\<close> appear in
  the tag text; the claim that they are omitted would give \<^verbatim>\<open><div></div>\<close>.
\<close>

theorem C4_null_attribute_counterexample:
  "renderToString (Suc (Suc (Suc 0))) exampleStore newDocument VUndefined
     (VObj [(''type'', VStr ''div''),
            (''props'', VObj [(''hidden'', VNull), (''title'', VUndefined)])])
   = Some (Inr ''<div hidden=\"null\" title=\"undefined\"></div>'', newDocument, VUndefined)
   \<and> renderToString (Suc (Suc (Suc 0))) exampleStore newDocument VUndefined
     (VObj [(''type'', VStr ''div''),
            (''props'', VObj [(''hidden'', VNull), (''title'', VUndefined)])])
   \<noteq> Some (Inr ''<div></div>'', newDocument, VUndefined)"
  by (simp add: eval_defs)

section \<open>The style attribute\<close>

lemma toLowerCase_style:
  assumes "toLowerCase key = ''style''"
  shows "key \<noteq> ''children''" and "\<not> startsWith (toLowerCase key) ''on''"
  using assms by (auto simp: startsWith_def toLowerCase_def toLowerChar_def)

lemma styleText_strings:
  "styleText env (VObj (map (\<lambda>(p, v). (p, VStr v)) m)) = Inr (map (\<lambda>(p, v). p @ '':'' @ v) m)"
  by (induction m) (auto simp: styleText_def)

text \<open>
  C9. An attribute whose key is \<^verbatim>\<open>style\<close> in any case of its letters and whose value is
  an object with string values is written as one attribute \<^verbatim>\<open>style="..."\<close>: every entry
  of the object as \<^verbatim>\<open>name:value\<close>, the name as it is, the entries joined with
  \<^verbatim>\<open>;\<close> in the order of the object. So \<^verbatim>\<open>{color: "red", fontWeight: "bold"}\<close> gives
  \<^verbatim>\<open>style="color:red;fontWeight:bold"\<close>.
\<close>

theorem C9_style_attribute:
  "toLowerCase key = ''style'' \<longrightarrow>
   attributeCallback env st (key, VObj (map (\<lambda>(p, v). (p, VStr v)) m))
     = Inr (st\<lparr>html := html st @ '' style=\"'' @ join (map (\<lambda>(p, v). p @ '':'' @ v) m) '';''
                            @ ''\"''\<rparr>)"
  using toLowerCase_style [of key]
  by (simp add: attributeCallback_def styleText_strings)

theorem C9_style_attribute_witness:
  "toLowerCase ''style'' = ''style''
   \<and> attributeCallback exampleStore \<lparr>html = ''<div'', children = VStr [], eventListeners = []\<rparr>
         (''style'', VObj [(''color'', VStr ''red''), (''fontWeight'', VStr ''bold'')])
       = Inr \<lparr>html = ''<div style=\"color:red;fontWeight:bold\"'', children = VStr [],
               eventListeners = []\<rparr>"
  using C9_style_attribute [of "''style''" exampleStore
      "\<lparr>html = ''<div'', children = VStr [], eventListeners = []\<rparr>"
      "[(''color'', ''red''), (''fontWeight'', ''bold'')]"]
  by (simp add: toLowerCase_def toLowerChar_def)

section \<open>Scalar leaves\<close>

text \<open>
  C5. A string node renders as itself, a number node as its decimal text, \<^verbatim>\<open>null\<close> and
  \<^verbatim>\<open>undefined\<close> as these words. A boolean node is none of the cases of
  \<^verbatim>\<open>#renderToString\<close>: it is destructured like an element, its \<open>type\<close> is undefined
  and it is handed to \<^verbatim>\<open>#parseTag\<close>, so \<^verbatim>\<open>true\<close> and \<^verbatim>\<open>false\<close> both render as
  \<^verbatim>\<open><undefined></undefined>\<close> and not as the words \<^verbatim>\<open>true\<close> and \<^verbatim>\<open>false\<close>. So
  \<^verbatim>\<open><div>{false && <span/>}</div>\<close>, a \<^verbatim>\<open>div\<close> whose children are \<^verbatim>\<open>false\<close>,
  renders as \<^verbatim>\<open><div><undefined></undefined></div>\<close>.
\<close>

theorem C5_scalar_leaves:
  "renderToString (Suc n) env d w (VStr s) = Some (Inr s, d, w)
   \<and> renderToString (Suc n) env d w (VNum i) = Some (Inr (numToString i), d, w)
   \<and> numToString 42 = ''42'' \<and> numToString (- 7) = ''-7''
   \<and> renderToString (Suc n) env d w VNull = Some (Inr ''null'', d, w)
   \<and> renderToString (Suc n) env d w VUndefined = Some (Inr ''undefined'', d, w)
   \<and> renderToString (Suc (Suc (Suc n))) env d w (VBool b)
       = Some (Inr ''<undefined></undefined>'', d, w)
   \<and> renderToString (Suc (Suc (Suc (Suc (Suc n))))) env d w
         (VObj [(''type'', VStr ''div''), (''props'', VObj [(''children'', VBool False)])])
       = Some (Inr ''<div><undefined></undefined></div>'', d, w)"
  by (simp add: eval_defs)

section \<open>Components\<close>

lemma andThen_cong_Some:
  assumes "\<And>s d1 w1. m = Some (Inr s, d1, w1) \<Longrightarrow> f s d1 w1 = g s d1 w1"
  shows "andThen m f = andThen m g"
  using assms by (auto simp: andThen_def split: option.splits sum.splits prod.splits)

lemma getField_type_function: "getField element ''type'' = VFun f \<Longrightarrow> \<exists>es. element = VObj es"
  by (cases element) simp_all

text \<open>
  C6, as the code has it. With the initial creation callback, a node whose \<open>type\<close> is a
  function is resolved by calling the function with one argument, the props. When the
  props hold truthy children, the children are rendered to a string first and the
  function gets a copy of the props in which \<open>children\<close> is that string; otherwise it
  gets the props as they are. The node the function returns is rendered in turn, from
  the Document as the children left it. The function is never given the children as a
  second argument.
\<close>

theorem C6_function_component:
  assumes "createComponent d = defaultCreateComponent"
    and "getField element ''type'' = VFun f"
  shows "renderToString (Suc n) env d w element =
     attempt d w (getProp (propsOf element) ''children'') (\<lambda>c.
       if truthy c then
         andThen (renderToString n env d w c) (\<lambda>s d1 w1.
           called d1
             (invoke (env f) w1
                [VObj (AList.update ''children'' (VStr s) (ownEntries (propsOf element)))])
             (\<lambda>node w2. renderToString n env d1 w2 node))
       else
         called d (invoke (env f) w [propsOf element])
           (\<lambda>node w1. renderToString n env d w1 node))"
proof -
  from assms(2) obtain es where el: "element = VObj es" using getField_type_function by blast
  then have facts: "element \<noteq> VUndefined" "element \<noteq> VNull" "typeof element = ''object''"
    "arrayElements element = None" by simp_all
  have inner: "andThen (renderToString n env d w c) (\<lambda>s d1 w1.
           called d1
             (createComponent d1 env (VFun f)
                (VObj (AList.update ''children'' (VStr s) (ownEntries (propsOf element)))) w1)
             (\<lambda>node w2. renderToString n env d1 w2 node))
      = andThen (renderToString n env d w c) (\<lambda>s d1 w1.
           called d1
             (invoke (env f) w1
                [VObj (AList.update ''children'' (VStr s) (ownEntries (propsOf element)))])
             (\<lambda>node w2. renderToString n env d1 w2 node))" for c
    by (rule andThen_cong_Some)
       (simp add: render_createComponent assms(1) defaultCreateComponent_def)
  have outer: "createComponent d env (VFun f) (propsOf element) w
               = invoke (env f) w [propsOf element]"
    by (simp add: assms(1) defaultCreateComponent_def)
  have "renderToString (Suc n) env d w element =
     attempt d w (getProp (propsOf element) ''children'') (\<lambda>c.
       if truthy c then
         andThen (renderToString n env d w c) (\<lambda>s d1 w1.
           called d1
             (createComponent d1 env (VFun f)
                (VObj (AList.update ''children'' (VStr s) (ownEntries (propsOf element)))) w1)
             (\<lambda>node w2. renderToString n env d1 w2 node))
       else
         called d (createComponent d env (VFun f) (propsOf element) w)
           (\<lambda>node w1. renderToString n env d w1 node))"
    using assms(2) facts by (simp add: Let_def del: getField.simps)
  then show ?thesis by (simp only: inner outer)
qed

theorem C6_function_component_witness:
  "createComponent newDocument = defaultCreateComponent
   \<and> getField (VObj [(''type'', VFun 0), (''props'', VObj [(''children'', VStr ''x'')])]) ''type''
       = VFun 0
   \<and> renderToString (Suc (Suc (Suc (Suc 0)))) paragraphStore newDocument VUndefined
         (VObj [(''type'', VFun 0), (''props'', VObj [(''children'', VStr ''x'')])])
       = Some (Inr ''<p>x</p>'', newDocument, VUndefined)"
proof -
  have cb: "createComponent newDocument = defaultCreateComponent"
    by (simp add: newDocument_def)
  have ty: "getField (VObj [(''type'', VFun 0), (''props'', VObj [(''children'', VStr ''x'')])])
              ''type'' = VFun 0"
    by simp
  show ?thesis
    by (subst C6_function_component [OF cb ty])
       (simp add: cb eval_defs paragraphStore_def paragraphComponent_def)
qed

text \<open>
  The component \<^verbatim>\<open>(props, children) => children\<close> with the children \<^verbatim>\<open>"x"\<close>: called
  with the props and the children it would return \<^verbatim>\<open>"x"\<close>, which renders as \<^verbatim>\<open>x\<close>;
  the render gives \<^verbatim>\<open>undefined\<close>, because the function is called with the props only.
\<close>

theorem C6_two_arguments_counterexample:
  "renderToString (Suc (Suc 0)) secondArgumentStore newDocument VUndefined
     (VObj [(''type'', VFun 0), (''props'', VObj [(''children'', VStr ''x'')])])
   = Some (Inr ''undefined'', newDocument, VUndefined)
   \<and> invoke (secondArgumentStore 0) VUndefined [VObj [(''children'', VStr ''x'')], VStr ''x'']
       = (Inr (VStr ''x''), VUndefined)
   \<and> renderToString (Suc 0) secondArgumentStore newDocument VUndefined (VStr ''x'')
       = Some (Inr ''x'', newDocument, VUndefined)"
  by (simp add: eval_defs newDocument_def defaultCreateComponent_def secondArgumentStore_def
        secondArgument_def)

section \<open>Nodes of unrecognized shape\<close>

lemma attributeCallback_html:
  "attributeCallback env st kv = Inr st' \<Longrightarrow> \<exists>suffix. html st' = html st @ suffix"
  by (cases kv) (auto simp: attributeCallback_def split: if_splits sum.splits)

lemma forEachAttribute_html:
  "forEachAttribute env es st = Inr st' \<Longrightarrow> \<exists>suffix. html st' = html st @ suffix"
proof (induction es arbitrary: st)
  case Nil
  then show ?case by simp
next
  case (Cons kv es)
  then obtain st1 where step: "attributeCallback env st kv = Inr st1"
    and run: "forEachAttribute env es st1 = Inr st'"
    by (auto split: sum.splits)
  from attributeCallback_html [OF step] Cons.IH [OF run] show ?case by auto
qed

lemma andThen_Some_Inr:
  "andThen m f = Some (Inr h, d', w') \<Longrightarrow>
   \<exists>s d1 w1. m = Some (Inr s, d1, w1) \<and> f s d1 w1 = Some (Inr h, d', w')"
  by (auto simp: andThen_def split: option.splits sum.splits prod.splits)

lemma attempt_Some_Inr:
  "attempt d w x f = Some (Inr h, d', w') \<Longrightarrow> \<exists>v. x = Inr v \<and> f v = Some (Inr h, d', w')"
  by (auto simp: attempt_def split: sum.splits)

lemma parseTag_opens_tag:
  assumes "parseTag n env d w type attrs = Some (Inr h, d', w')"
  shows "\<exists>tag rest. toStringJS env type = Inr tag \<and> h = ''<'' @ tag @ rest"
proof (cases n)
  case 0
  with assms show ?thesis by simp
next
  case (Suc m)
  with assms obtain tag es st where tag: "toStringJS env type = Inr tag"
    and st: "forEachAttribute env es \<lparr>html = ''<'' @ tag, children = VStr [], eventListeners = []\<rparr> = Inr st"
    and body: "(let ident = mkIdentifier tag (identifierCounter d);
            minted = (eventListeners st \<noteq> []);
            opening = (if minted then html st @ dataAttributes ident (eventListeners st)
                       else html st);
            d1 = (if minted
                  then d\<lparr>identifierCounter := identifierCounter d + 1,
                         listeners := listeners d @ [listenerScript ident (eventListeners st)]\<rparr>
                  else d)
        in andThen (renderToString m env d1 w (children st)) (\<lambda>inner d2 w2.
             Some (Inr (opening @ ''>'' @ inner @ ''</'' @ tag @ ''>''), d2, w2)))
        = Some (Inr h, d', w')"
    by (auto dest!: attempt_Some_Inr)
  from forEachAttribute_html [OF st] obtain suffix where "html st = ''<'' @ tag @ suffix" by auto
  with body show ?thesis using tag
    by (auto simp: Let_def dest!: andThen_Some_Inr split: if_splits)
qed

text \<open>
  C7, as the code has it. A node of unrecognized shape is not rendered as the empty
  string: \<^verbatim>\<open>#renderToString\<close> has no case for it and hands its \<open>type\<close> and its props
  to \<^verbatim>\<open>#parseTag\<close>, like an element. Every string it returns starts with \<^verbatim>\<open><\<close> and
  the text of the \<open>type\<close>; an object with no \<open>type\<close> and no props gives
  \<^verbatim>\<open><undefined></undefined>\<close>.
\<close>

theorem C7_unrecognized_node:
  "unrecognized v \<longrightarrow>
     renderToString (Suc n) env d w v = parseTag n env d w (getField v ''type'') (propsOf v)
     \<and> (\<forall>h d' w'. renderToString (Suc n) env d w v = Some (Inr h, d', w') \<longrightarrow>
          (\<exists>tag rest. toStringJS env (getField v ''type'') = Inr tag \<and> h = ''<'' @ tag @ rest))"
proof
  assume u: "unrecognized v"
  then have facts: "v \<noteq> VUndefined" "v \<noteq> VNull" "typeof v \<noteq> ''string''" "typeof v \<noteq> ''number''"
    "arrayElements v = None" "typeof (getField v ''type'') \<noteq> ''symbol''"
    "typeof (getField v ''type'') \<noteq> ''function''"
    by (cases v; simp add: unrecognized_def)+
  then have eq: "renderToString (Suc n) env d w v
                 = parseTag n env d w (getField v ''type'') (propsOf v)"
    by (simp add: Let_def del: getField.simps)
  with parseTag_opens_tag
  show "renderToString (Suc n) env d w v = parseTag n env d w (getField v ''type'') (propsOf v)
     \<and> (\<forall>h d' w'. renderToString (Suc n) env d w v = Some (Inr h, d', w') \<longrightarrow>
          (\<exists>tag rest. toStringJS env (getField v ''type'') = Inr tag \<and> h = ''<'' @ tag @ rest))"
    by auto
qed

theorem C7_unrecognized_node_witness:
  "unrecognized (VObj [])
   \<and> renderToString (Suc (Suc (Suc 0))) exampleStore newDocument VUndefined (VObj [])
       = parseTag (Suc (Suc 0)) exampleStore newDocument VUndefined VUndefined (VObj [])
   \<and> (\<exists>tag rest. toStringJS exampleStore (getField (VObj []) ''type'') = Inr tag
          \<and> ''<undefined></undefined>'' = ''<'' @ tag @ rest)"
proof -
  have u: "unrecognized (VObj [])" by (simp add: unrecognized_def)
  have run: "renderToString (Suc (Suc (Suc 0))) exampleStore newDocument VUndefined (VObj [])
             = Some (Inr ''<undefined></undefined>'', newDocument, VUndefined)"
    by (simp add: eval_defs)
  from C7_unrecognized_node [of "VObj []" "Suc (Suc 0)" exampleStore newDocument VUndefined] u run
  show ?thesis by (simp add: propsOf_def del: renderToString.simps parseTag.simps)
qed

theorem C7_empty_string_counterexample:
  "unrecognized (VObj [])
   \<and> renderToString (Suc (Suc (Suc 0))) exampleStore newDocument VUndefined (VObj [])
       = Some (Inr ''<undefined></undefined>'', newDocument, VUndefined)
   \<and> renderToString (Suc (Suc (Suc 0))) exampleStore newDocument VUndefined (VObj [])
       \<noteq> Some (Inr [], newDocument, VUndefined)"
  by (simp add: eval_defs unrecognized_def)

section \<open>The bound on the calls does not change the result\<close>















section \<open>Components that keep no state\<close>






















section \<open>Rendering twice with one Document\<close>

lemma renderToDynamicMarkup_Inr:
  assumes "renderToDynamicMarkup n env d w t = Some (Inr out, d', w')"
  shows "\<exists>content. renderToString n env d w t = Some (Inr content, d', w') \<and> out = page d' content"
  using assms
  by (auto simp: renderToDynamicMarkup_def andThen_def split: option.splits sum.splits prod.splits)

lemma mints_frame:
  assumes "mints d ms d'"
  shows "lang d' = lang d" "title d' = title d" "metas d' = metas d" "links d' = links d"
    "styles d' = styles d" "headerScripts d' = headerScripts d" "bodyScripts d' = bodyScripts d"
    "noScript d' = noScript d"
  using assms by (simp_all add: mints_def afterMinting_def)

text \<open>
  C10. \<^verbatim>\<open>renderToDynamicMarkup\<close> resets neither the counter nor the registry. When it
  is called a second time on the Document the first call left, the identifiers of the
  second render are numbered on from where the first stopped, and the second output is
  the page whose script element holds, between its first and its last line, the
  registry entries of the Document before the first render, those of the first render
  and those of the second, in this order, separated by empty lines.
\<close>

theorem C10_second_render:
  assumes "renderToDynamicMarkup n1 env d w t1 = Some (Inr out1, d1, w1)"
    and "renderToDynamicMarkup n2 env d1 w1 t2 = Some (Inr out2, d2, w2)"
  shows "\<exists>ms1 ms2 content2.
           list_all (\<lambda>m. snd m \<noteq> []) (ms1 @ ms2)
         \<and> identifierCounter d1 = identifierCounter d + length ms1
         \<and> listeners d1 = listeners d @ registryEntries (identifierCounter d) ms1
         \<and> identifierCounter d2 = identifierCounter d + length ms1 + length ms2
         \<and> listeners d2 = listeners d @ registryEntries (identifierCounter d) ms1
                            @ registryEntries (identifierCounter d + length ms1) ms2
         \<and> renderToString n2 env d1 w1 t2 = Some (Inr content2, d2, w2)
         \<and> out2 = concat
       [nl,
        spaces 12, ''<!DOCTYPE html>'', nl,
        spaces 12, ''<html lang='', apostrophe, lang d, apostrophe, ''>'', nl,
        spaces 16, ''<head>'', nl,
        spaces 20, ''<title>'', title d, ''</title>'', nl,
        spaces 20, join (metas d) nl, nl,
        spaces 20, join (links d) nl, nl,
        spaces 20, join (styles d) nl, nl,
        spaces 20, join (headerScripts d) nl, nl,
        spaces 16, ''</head>'', nl,
        spaces 16, ''<body>'', nl,
        spaces 20, content2, nl,
        spaces 20, join (bodyScripts d) nl, nl,
        spaces 20, ''<script>'', nl,
        ''document.addEventListener('', apostrophe, ''DOMContentLoaded'', apostrophe,
          '', function() {'', nl,
        join (listeners d @ registryEntries (identifierCounter d) ms1
                @ registryEntries (identifierCounter d + length ms1) ms2) (nl @ nl), nl,
        ''});'', nl,
        spaces 20, ''</script>'', nl,
        spaces 20, ''<noscript>'', noScript d, ''</noscript>'', nl,
        spaces 16, ''</body>'', nl,
        spaces 12, ''</html>'', nl,
        spaces 8]"
proof -
  from renderToDynamicMarkup_Inr [OF assms(1)] obtain content1
    where r1: "renderToString n1 env d w t1 = Some (Inr content1, d1, w1)" by blast
  from renderToDynamicMarkup_Inr [OF assms(2)] obtain content2
    where r2: "renderToString n2 env d1 w1 t2 = Some (Inr content2, d2, w2)"
      and out2: "out2 = page d2 content2" by blast
  from render_mints [OF r1] obtain ms1 where m1: "mints d ms1 d1" ..
  from render_mints [OF r2] obtain ms2 where m2: "mints d1 ms2 d2" ..
  from mints_trans [OF m1 m2] have m: "mints d (ms1 @ ms2) d2" .
  from m1 have c1: "identifierCounter d1 = identifierCounter d + length ms1"
    and l1: "listeners d1 = listeners d @ registryEntries (identifierCounter d) ms1"
    by (simp_all add: mints_def afterMinting_def)
  from m have c2: "identifierCounter d2 = identifierCounter d + length ms1 + length ms2"
    and l2: "listeners d2 = listeners d @ registryEntries (identifierCounter d) ms1
                            @ registryEntries (identifierCounter d + length ms1) ms2"
    and a: "list_all (\<lambda>m. snd m \<noteq> []) (ms1 @ ms2)"
    by (simp_all add: mints_def afterMinting_def registryEntries_append)
  have "out2 = concat
       [nl,
        spaces 12, ''<!DOCTYPE html>'', nl,
        spaces 12, ''<html lang='', apostrophe, lang d, apostrophe, ''>'', nl,
        spaces 16, ''<head>'', nl,
        spaces 20, ''<title>'', title d, ''</title>'', nl,
        spaces 20, join (metas d) nl, nl,
        spaces 20, join (links d) nl, nl,
        spaces 20, join (styles d) nl, nl,
        spaces 20, join (headerScripts d) nl, nl,
        spaces 16, ''</head>'', nl,
        spaces 16, ''<body>'', nl,
        spaces 20, content2, nl,
        spaces 20, join (bodyScripts d) nl, nl,
        spaces 20, ''<script>'', nl,
        ''document.addEventListener('', apostrophe, ''DOMContentLoaded'', apostrophe,
          '', function() {'', nl,
        join (listeners d @ registryEntries (identifierCounter d) ms1
                @ registryEntries (identifierCounter d + length ms1) ms2) (nl @ nl), nl,
        ''});'', nl,
        spaces 20, ''</script>'', nl,
        spaces 20, ''<noscript>'', noScript d, ''</noscript>'', nl,
        spaces 16, ''</body>'', nl,
        spaces 12, ''</html>'', nl,
        spaces 8]"
    unfolding out2 page_def listenerSetupScript_def mints_frame [OF m] l2 by simp
  with a c1 l1 c2 l2 r2 show ?thesis by blast
qed

lemma second_button:
  "renderToString (Suc (Suc (Suc n))) exampleStore
     (newDocument\<lparr>identifierCounter := 1, listeners := [clickEntry ''button_0'']\<rparr>) VUndefined clickButton
   = Some (Inr ''<button data-identifier=\"button_1\" data-listeners=\"click\">Click me</button>'',
           newDocument\<lparr>identifierCounter := 2,
             listeners := [clickEntry ''button_0'', clickEntry ''button_1'']\<rparr>, VUndefined)"
  by (simp add: eval_defs newDocument_def apostrophe_def nl_def clickButton_def exampleStore_def
        clickEntry_def)

lemma first_button:
  "renderToString (Suc (Suc (Suc n))) exampleStore newDocument VUndefined clickButton
   = Some (Inr ''<button data-identifier=\"button_0\" data-listeners=\"click\">Click me</button>'',
           newDocument\<lparr>identifierCounter := 1, listeners := [clickEntry ''button_0'']\<rparr>, VUndefined)"
  by (simp add: eval_defs newDocument_def apostrophe_def nl_def clickButton_def exampleStore_def
        clickEntry_def)

text \<open>
  The button of the README rendered twice with one Document. The second page names the
  button \<^verbatim>\<open>button_1\<close>, and its script element attaches the listener of
  \<^verbatim>\<open>button_0\<close>, from the first render, and the listener of \<^verbatim>\<open>button_1\<close>.
\<close>

lemma first_page:
  "renderToDynamicMarkup (Suc (Suc (Suc 0))) exampleStore newDocument VUndefined clickButton
     = Some (Inr (
      nl @ ''            <!DOCTYPE html>'' @ nl @ ''            <html lang='' @ apostrophe @
      ''en'' @ apostrophe @ ''>'' @ nl @ ''                <head>'' @ nl @
      ''                    <title>Rendered as dynamic markup</title>'' @ nl @
      ''                    '' @ nl @ ''                    '' @ nl @ ''                    '' @
      nl @ ''                    '' @ nl @ ''                </head>'' @ nl @
      ''                <body>'' @ nl @
      ''                    <button data-identifier=\"button_0\" data-listeners=\"click\">Click me</button>'' @
      nl @ ''                    '' @ nl @ ''                    <script>'' @ nl @
      ''document.addEventListener('' @ apostrophe @ ''DOMContentLoaded'' @ apostrophe @
      '', function() {'' @ nl @ ''const button_0 = document.querySelector('' @ apostrophe @
      ''[data-identifier=\"button_0\"]'' @ apostrophe @ '');'' @ nl @
      ''button_0.addEventListener(\"click\", () => alert(1));'' @ nl @ ''});'' @ nl @
      ''                    </script>'' @ nl @
      ''                    <noscript>Your browser does not support JavaScript!</noscript>'' @
      nl @ ''                </body>'' @ nl @ ''            </html>'' @ nl @ ''        ''),
             newDocument\<lparr>identifierCounter := 1, listeners := [clickEntry ''button_0'']\<rparr>, VUndefined)"
  by (simp only: renderToDynamicMarkup_def first_button)
     (simp add: andThen_def page_def listenerSetupScript_def newDocument_def spaces_def
        clickEntry_def eval_nat_numeral)

lemma second_page:
  "renderToDynamicMarkup (Suc (Suc (Suc 0))) exampleStore
       (newDocument\<lparr>identifierCounter := 1, listeners := [clickEntry ''button_0'']\<rparr>) VUndefined clickButton
     = Some (Inr (
      nl @ ''            <!DOCTYPE html>'' @ nl @ ''            <html lang='' @ apostrophe @
      ''en'' @ apostrophe @ ''>'' @ nl @ ''                <head>'' @ nl @
      ''                    <title>Rendered as dynamic markup</title>'' @ nl @
      ''                    '' @ nl @ ''                    '' @ nl @ ''                    '' @
      nl @ ''                    '' @ nl @ ''                </head>'' @ nl @
      ''                <body>'' @ nl @
      ''                    <button data-identifier=\"button_1\" data-listeners=\"click\">Click me</button>'' @
      nl @ ''                    '' @ nl @ ''                    <script>'' @ nl @
      ''document.addEventListener('' @ apostrophe @ ''DOMContentLoaded'' @ apostrophe @
      '', function() {'' @ nl @ ''const button_0 = document.querySelector('' @ apostrophe @
      ''[data-identifier=\"button_0\"]'' @ apostrophe @ '');'' @ nl @
      ''button_0.addEventListener(\"click\", () => alert(1));'' @ nl @ nl @
      ''const button_1 = document.querySelector('' @ apostrophe @
      ''[data-identifier=\"button_1\"]'' @ apostrophe @ '');'' @ nl @
      ''button_1.addEventListener(\"click\", () => alert(1));'' @ nl @ ''});'' @ nl @
      ''                    </script>'' @ nl @
      ''                    <noscript>Your browser does not support JavaScript!</noscript>'' @
      nl @ ''                </body>'' @ nl @ ''            </html>'' @ nl @ ''        ''),
             newDocument\<lparr>identifierCounter := 2,
               listeners := [clickEntry ''button_0'', clickEntry ''button_1'']\<rparr>, VUndefined)"
  by (simp only: renderToDynamicMarkup_def second_button)
     (simp add: andThen_def page_def listenerSetupScript_def newDocument_def spaces_def
        clickEntry_def eval_nat_numeral)

theorem C10_second_render_witness:
  "renderToDynamicMarkup (Suc (Suc (Suc 0))) exampleStore newDocument VUndefined clickButton
     = Some (Inr (
      nl @ ''            <!DOCTYPE html>'' @ nl @ ''            <html lang='' @ apostrophe @
      ''en'' @ apostrophe @ ''>'' @ nl @ ''                <head>'' @ nl @
      ''                    <title>Rendered as dynamic markup</title>'' @ nl @
      ''                    '' @ nl @ ''                    '' @ nl @ ''                    '' @
      nl @ ''                    '' @ nl @ ''                </head>'' @ nl @
      ''                <body>'' @ nl @
      ''                    <button data-identifier=\"button_0\" data-listeners=\"click\">Click me</button>'' @
      nl @ ''                    '' @ nl @ ''                    <script>'' @ nl @
      ''document.addEventListener('' @ apostrophe @ ''DOMContentLoaded'' @ apostrophe @
      '', function() {'' @ nl @ ''const button_0 = document.querySelector('' @ apostrophe @
      ''[data-identifier=\"button_0\"]'' @ apostrophe @ '');'' @ nl @
      ''button_0.addEventListener(\"click\", () => alert(1));'' @ nl @ ''});'' @ nl @
      ''                    </script>'' @ nl @
      ''                    <noscript>Your browser does not support JavaScript!</noscript>'' @
      nl @ ''                </body>'' @ nl @ ''            </html>'' @ nl @ ''        ''),
             newDocument\<lparr>identifierCounter := 1, listeners := [clickEntry ''button_0'']\<rparr>, VUndefined)
   \<and> renderToDynamicMarkup (Suc (Suc (Suc 0))) exampleStore
       (newDocument\<lparr>identifierCounter := 1, listeners := [clickEntry ''button_0'']\<rparr>) VUndefined clickButton
     = Some (Inr (
      nl @ ''            <!DOCTYPE html>'' @ nl @ ''            <html lang='' @ apostrophe @
      ''en'' @ apostrophe @ ''>'' @ nl @ ''                <head>'' @ nl @
      ''                    <title>Rendered as dynamic markup</title>'' @ nl @
      ''                    '' @ nl @ ''                    '' @ nl @ ''                    '' @
      nl @ ''                    '' @ nl @ ''                </head>'' @ nl @
      ''                <body>'' @ nl @
      ''                    <button data-identifier=\"button_1\" data-listeners=\"click\">Click me</button>'' @
      nl @ ''                    '' @ nl @ ''                    <script>'' @ nl @
      ''document.addEventListener('' @ apostrophe @ ''DOMContentLoaded'' @ apostrophe @
      '', function() {'' @ nl @ ''const button_0 = document.querySelector('' @ apostrophe @
      ''[data-identifier=\"button_0\"]'' @ apostrophe @ '');'' @ nl @
      ''button_0.addEventListener(\"click\", () => alert(1));'' @ nl @ nl @
      ''const button_1 = document.querySelector('' @ apostrophe @
      ''[data-identifier=\"button_1\"]'' @ apostrophe @ '');'' @ nl @
      ''button_1.addEventListener(\"click\", () => alert(1));'' @ nl @ ''});'' @ nl @
      ''                    </script>'' @ nl @
      ''                    <noscript>Your browser does not support JavaScript!</noscript>'' @
      nl @ ''                </body>'' @ nl @ ''            </html>'' @ nl @ ''        ''),
             newDocument\<lparr>identifierCounter := 2,
               listeners := [clickEntry ''button_0'', clickEntry ''button_1'']\<rparr>, VUndefined)
   \<and> (\<exists>ms1 ms2 content2.
          (1::nat) = 0 + length ms1 \<and> (2::nat) = 0 + length ms1 + length ms2
        \<and> [clickEntry ''button_0'', clickEntry ''button_1'']
            = [] @ registryEntries 0 ms1 @ registryEntries (0 + length ms1) ms2
        \<and>
      nl @ ''            <!DOCTYPE html>'' @ nl @ ''            <html lang='' @ apostrophe @
      ''en'' @ apostrophe @ ''>'' @ nl @ ''                <head>'' @ nl @
      ''                    <title>Rendered as dynamic markup</title>'' @ nl @
      ''                    '' @ nl @ ''                    '' @ nl @ ''                    '' @
      nl @ ''                    '' @ nl @ ''                </head>'' @ nl @
      ''                <body>'' @ nl @
      ''                    <button data-identifier=\"button_1\" data-listeners=\"click\">Click me</button>'' @
      nl @ ''                    '' @ nl @ ''                    <script>'' @ nl @
      ''document.addEventListener('' @ apostrophe @ ''DOMContentLoaded'' @ apostrophe @
      '', function() {'' @ nl @ ''const button_0 = document.querySelector('' @ apostrophe @
      ''[data-identifier=\"button_0\"]'' @ apostrophe @ '');'' @ nl @
      ''button_0.addEventListener(\"click\", () => alert(1));'' @ nl @ nl @
      ''const button_1 = document.querySelector('' @ apostrophe @
      ''[data-identifier=\"button_1\"]'' @ apostrophe @ '');'' @ nl @
      ''button_1.addEventListener(\"click\", () => alert(1));'' @ nl @ ''});'' @ nl @
      ''                    </script>'' @ nl @
      ''                    <noscript>Your browser does not support JavaScript!</noscript>'' @
      nl @ ''                </body>'' @ nl @ ''            </html>'' @ nl @ ''        ''
          = concat
       [nl,
        spaces 12, ''<!DOCTYPE html>'', nl,
        spaces 12, ''<html lang='', apostrophe, ''en'', apostrophe, ''>'', nl,
        spaces 16, ''<head>'', nl,
        spaces 20, ''<title>'', ''Rendered as dynamic markup'', ''</title>'', nl,
        spaces 20, join [] nl, nl,
        spaces 20, join [] nl, nl,
        spaces 20, join [] nl, nl,
        spaces 20, join [] nl, nl,
        spaces 16, ''</head>'', nl,
        spaces 16, ''<body>'', nl,
        spaces 20, content2, nl,
        spaces 20, join [] nl, nl,
        spaces 20, ''<script>'', nl,
        ''document.addEventListener('', apostrophe, ''DOMContentLoaded'', apostrophe,
          '', function() {'', nl,
        join ([] @ registryEntries 0 ms1 @ registryEntries (0 + length ms1) ms2) (nl @ nl), nl,
        ''});'', nl,
        spaces 20, ''</script>'', nl,
        spaces 20, ''<noscript>'', ''Your browser does not support JavaScript!'', ''</noscript>'', nl,
        spaces 16, ''</body>'', nl,
        spaces 12, ''</html>'', nl,
        spaces 8])"
proof -
  let ?d1 = "newDocument\<lparr>identifierCounter := 1, listeners := [clickEntry ''button_0'']\<rparr>"
  let ?d2 = "newDocument\<lparr>identifierCounter := 2,
               listeners := [clickEntry ''button_0'', clickEntry ''button_1'']\<rparr>"
  from C10_second_render [OF first_page second_page] obtain ms1 ms2 content2 where
    "identifierCounter ?d1 = identifierCounter newDocument + length ms1"
    "identifierCounter ?d2 = identifierCounter newDocument + length ms1 + length ms2"
    "listeners ?d2 = listeners newDocument @ registryEntries (identifierCounter newDocument) ms1
                            @ registryEntries (identifierCounter newDocument + length ms1) ms2"
    "
      nl @ ''            <!DOCTYPE html>'' @ nl @ ''            <html lang='' @ apostrophe @
      ''en'' @ apostrophe @ ''>'' @ nl @ ''                <head>'' @ nl @
      ''                    <title>Rendered as dynamic markup</title>'' @ nl @
      ''                    '' @ nl @ ''                    '' @ nl @ ''                    '' @
      nl @ ''                    '' @ nl @ ''                </head>'' @ nl @
      ''                <body>'' @ nl @
      ''                    <button data-identifier=\"button_1\" data-listeners=\"click\">Click me</button>'' @
      nl @ ''                    '' @ nl @ ''                    <script>'' @ nl @
      ''document.addEventListener('' @ apostrophe @ ''DOMContentLoaded'' @ apostrophe @
      '', function() {'' @ nl @ ''const button_0 = document.querySelector('' @ apostrophe @
      ''[data-identifier=\"button_0\"]'' @ apostrophe @ '');'' @ nl @
      ''button_0.addEventListener(\"click\", () => alert(1));'' @ nl @ nl @
      ''const button_1 = document.querySelector('' @ apostrophe @
      ''[data-identifier=\"button_1\"]'' @ apostrophe @ '');'' @ nl @
      ''button_1.addEventListener(\"click\", () => alert(1));'' @ nl @ ''});'' @ nl @
      ''                    </script>'' @ nl @
      ''                    <noscript>Your browser does not support JavaScript!</noscript>'' @
      nl @ ''                </body>'' @ nl @ ''            </html>'' @ nl @ ''        ''
     = concat
       [nl,
        spaces 12, ''<!DOCTYPE html>'', nl,
        spaces 12, ''<html lang='', apostrophe, lang newDocument, apostrophe, ''>'', nl,
        spaces 16, ''<head>'', nl,
        spaces 20, ''<title>'', title newDocument, ''</title>'', nl,
        spaces 20, join (metas newDocument) nl, nl,
        spaces 20, join (links newDocument) nl, nl,
        spaces 20, join (styles newDocument) nl, nl,
        spaces 20, join (headerScripts newDocument) nl, nl,
        spaces 16, ''</head>'', nl,
        spaces 16, ''<body>'', nl,
        spaces 20, content2, nl,
        spaces 20, join (bodyScripts newDocument) nl, nl,
        spaces 20, ''<script>'', nl,
        ''document.addEventListener('', apostrophe, ''DOMContentLoaded'', apostrophe,
          '', function() {'', nl,
        join (listeners newDocument @ registryEntries (identifierCounter newDocument) ms1
                @ registryEntries (identifierCounter newDocument + length ms1) ms2) (nl @ nl), nl,
        ''});'', nl,
        spaces 20, ''</script>'', nl,
        spaces 20, ''<noscript>'', noScript newDocument, ''</noscript>'', nl,
        spaces 16, ''</body>'', nl,
        spaces 12, ''</html>'', nl,
        spaces 8]"
    by blast
  then have "\<exists>ms1 ms2 content2.
          (1::nat) = 0 + length ms1 \<and> (2::nat) = 0 + length ms1 + length ms2
        \<and> [clickEntry ''button_0'', clickEntry ''button_1'']
            = [] @ registryEntries 0 ms1 @ registryEntries (0 + length ms1) ms2
        \<and>
      nl @ ''            <!DOCTYPE html>'' @ nl @ ''            <html lang='' @ apostrophe @
      ''en'' @ apostrophe @ ''>'' @ nl @ ''                <head>'' @ nl @
      ''                    <title>Rendered as dynamic markup</title>'' @ nl @
      ''                    '' @ nl @ ''                    '' @ nl @ ''                    '' @
      nl @ ''                    '' @ nl @ ''                </head>'' @ nl @
      ''                <body>'' @ nl @
      ''                    <button data-identifier=\"button_1\" data-listeners=\"click\">Click me</button>'' @
      nl @ ''                    '' @ nl @ ''                    <script>'' @ nl @
      ''document.addEventListener('' @ apostrophe @ ''DOMContentLoaded'' @ apostrophe @
      '', function() {'' @ nl @ ''const button_0 = document.querySelector('' @ apostrophe @
      ''[data-identifier=\"button_0\"]'' @ apostrophe @ '');'' @ nl @
      ''button_0.addEventListener(\"click\", () => alert(1));'' @ nl @ nl @
      ''const button_1 = document.querySelector('' @ apostrophe @
      ''[data-identifier=\"button_1\"]'' @ apostrophe @ '');'' @ nl @
      ''button_1.addEventListener(\"click\", () => alert(1));'' @ nl @ ''});'' @ nl @
      ''                    </script>'' @ nl @
      ''                    <noscript>Your browser does not support JavaScript!</noscript>'' @
      nl @ ''                </body>'' @ nl @ ''            </html>'' @ nl @ ''        ''
          = concat
       [nl,
        spaces 12, ''<!DOCTYPE html>'', nl,
        spaces 12, ''<html lang='', apostrophe, ''en'', apostrophe, ''>'', nl,
        spaces 16, ''<head>'', nl,
        spaces 20, ''<title>'', ''Rendered as dynamic markup'', ''</title>'', nl,
        spaces 20, join [] nl, nl,
        spaces 20, join [] nl, nl,
        spaces 20, join [] nl, nl,
        spaces 20, join [] nl, nl,
        spaces 16, ''</head>'', nl,
        spaces 16, ''<body>'', nl,
        spaces 20, content2, nl,
        spaces 20, join [] nl, nl,
        spaces 20, ''<script>'', nl,
        ''document.addEventListener('', apostrophe, ''DOMContentLoaded'', apostrophe,
          '', function() {'', nl,
        join ([] @ registryEntries 0 ms1 @ registryEntries (0 + length ms1) ms2) (nl @ nl), nl,
        ''});'', nl,
        spaces 20, ''</script>'', nl,
        spaces 20, ''<noscript>'', ''Your browser does not support JavaScript!'', ''</noscript>'', nl,
        spaces 16, ''</body>'', nl,
        spaces 12, ''</html>'', nl,
        spaces 8]"
    by (intro exI [of _ ms1] exI [of _ ms2] exI [of _ content2]) (simp add: newDocument_def)
  with first_page second_page show ?thesis by blast
qed

section \<open>Identifiers\<close>



















end
